theory Spec2Isabelle
  imports Complex_Main "HOL-Library.Multiset"
begin

section \<open>Values, tables and the pandas operations the dashboard uses\<close>

text \<open>
  The dashboard (\<^verbatim>\<open>emdat_streamlit_app.py\<close>) loads one MongoDB collection into a
  pandas dataframe and hands that dataframe to its view renderers. A cell of the
  dataframe is a dynamically typed Python value. The model keeps the four kinds of value
  the renderers tell apart: \<^verbatim>\<open>None\<close>, the float \<^verbatim>\<open>nan\<close> (what
  \<^verbatim>\<open>json_normalize\<close> writes for an absent field and what a failed numeric coercion
  yields), numbers and strings.

  A number is kept by its value. \<open>CInt n\<close> is the number \<open>n\<close>, whether Python holds it
  as an \<^verbatim>\<open>int\<close> or as the float \<open>n.0\<close> (Python's \<^verbatim>\<open>==\<close> and hashing do not tell
  them apart). \<open>CFloat v txt\<close> is a float that is no integer and not \<^verbatim>\<open>nan\<close>: a
  fraction or an infinity \<open>v\<close>, together with the text \<open>txt\<close> that \<^verbatim>\<open>str()\<close> prints
  for it. The arithmetic of pandas on such numbers (\<^verbatim>\<open>int64\<close>, \<^verbatim>\<open>float64\<close>) is not
  defined here: the renderers take the sum and the mean as parameters.
\<close>

datatype fval = NegInf | Finite rat | PosInf

datatype cell = CNone | CNaN | CInt int | CFloat fval string | CStr string

datatype error = KeyError | TypeError | AttributeError

text \<open>
  A dataframe has a list of column names and a list of rows; a row gives a cell for
  every column name (only the names in \<open>columns\<close> are meaningful).
\<close>

type_synonym row = "string \<Rightarrow> cell"

record dataframe =
  columns :: "string list"
  rows :: "row list"

text \<open>\<^verbatim>\<open>df[name]\<close> raises \<^verbatim>\<open>KeyError\<close> when the column is absent.\<close>

definition getcol :: "dataframe \<Rightarrow> string \<Rightarrow> cell list option" where
  "getcol df name =
     (if name \<in> set (columns df) then Some (map (\<lambda>r. r name) (rows df)) else None)"

text \<open>\<^verbatim>\<open>pd.isna\<close>: both \<^verbatim>\<open>None\<close> and \<^verbatim>\<open>nan\<close> are missing values.\<close>

fun isna :: "cell \<Rightarrow> bool" where
  "isna CNone = True"
| "isna CNaN = True"
| "isna (CInt n) = False"
| "isna (CFloat v txt) = False"
| "isna (CStr s) = False"

text \<open>\<^verbatim>\<open>Series.dropna()\<close> on a column of values.\<close>

definition dropna_values :: "cell list \<Rightarrow> cell list" where
  "dropna_values xs = filter (\<lambda>c. \<not> isna c) xs"

text \<open>\<^verbatim>\<open>Series.unique()\<close>: the distinct values in order of first appearance.\<close>

fun unique :: "'a list \<Rightarrow> 'a list" where
  "unique [] = []"
| "unique (x # xs) = x # unique (filter (\<lambda>y. y \<noteq> x) xs)"

text \<open>
  \<^verbatim>\<open>Series.value_counts()\<close>: missing values are dropped, every distinct value is
  paired with its number of occurrences, and the pairs are ordered by descending count.
  Pairs with equal counts are kept in order of first appearance.
\<close>

definition by_count_desc :: "('a \<times> nat) list \<Rightarrow> ('a \<times> nat) list" where
  "by_count_desc s = sort_key (\<lambda>p. - int (snd p)) s"

definition value_counts :: "cell list \<Rightarrow> (cell \<times> nat) list" where
  "value_counts xs =
     (let ys = dropna_values xs
      in by_count_desc (map (\<lambda>v. (v, count_list ys v)) (unique ys)))"

text \<open>
  \<^verbatim>\<open>Series.nlargest(n)\<close> with the default \<^verbatim>\<open>keep='first'\<close>: the \<open>n\<close> entries with
  the largest values in descending order, earlier entries first among equal values.
\<close>

definition nlargest :: "nat \<Rightarrow> ('a \<times> nat) list \<Rightarrow> ('a \<times> nat) list" where
  "nlargest n s = take n (by_count_desc s)"

section \<open>Python and pandas primitives\<close>

text \<open>
  Python compares strings by code point. A \<open>string\<close> here is the UTF-8 byte
  sequence, and byte-wise lexicographic order on UTF-8 is code point order.
\<close>

fun str_lt :: "string \<Rightarrow> string \<Rightarrow> bool" where
  "str_lt [] [] = False"
| "str_lt [] (y # ys) = True"
| "str_lt (x # xs) [] = False"
| "str_lt (x # xs) (y # ys) =
     (if (of_char x :: nat) < of_char y then True
      else if (of_char y :: nat) < of_char x then False
      else str_lt xs ys)"

text \<open>Numbers are compared by value; every comparison with \<^verbatim>\<open>nan\<close> is false.\<close>

fun fval_lt :: "fval \<Rightarrow> fval \<Rightarrow> bool" where
  "fval_lt (Finite a) (Finite b) = (a < b)"
| "fval_lt NegInf (Finite b) = True"
| "fval_lt NegInf PosInf = True"
| "fval_lt (Finite a) PosInf = True"
| "fval_lt a b = False"

fun number_value :: "cell \<Rightarrow> fval option" where
  "number_value (CInt n) = Some (Finite (of_int n))"
| "number_value (CFloat v txt) = Some v"
| "number_value c = None"

definition number_lt :: "cell \<Rightarrow> cell \<Rightarrow> bool" where
  "number_lt a b =
     (case number_value a of
        None \<Rightarrow> False
      | Some x \<Rightarrow> (case number_value b of None \<Rightarrow> False | Some y \<Rightarrow> fval_lt x y))"

text \<open>The values of Python's numeric types: the numbers and \<^verbatim>\<open>nan\<close>.\<close>

fun is_numeric :: "cell \<Rightarrow> bool" where
  "is_numeric CNaN = True"
| "is_numeric (CInt n) = True"
| "is_numeric (CFloat v txt) = True"
| "is_numeric c = False"

text \<open>
  Python's \<^verbatim>\<open><\<close> on two cells: \<^verbatim>\<open>None\<close> is not orderable and a string is not
  orderable against a number.
\<close>

fun py_lt :: "cell \<Rightarrow> cell \<Rightarrow> error + bool" where
  "py_lt (CInt a) (CInt b) = Inr (a < b)"
| "py_lt (CStr a) (CStr b) = Inr (str_lt a b)"
| "py_lt a b = (if is_numeric a \<and> is_numeric b then Inr (number_lt a b) else Inl TypeError)"

text \<open>
  Stable insertion sort under a given strict order: the order of the result whenever the
  comparison is a strict weak order.
\<close>

fun insort_by :: "('a \<Rightarrow> 'a \<Rightarrow> bool) \<Rightarrow> 'a \<Rightarrow> 'a list \<Rightarrow> 'a list" where
  "insort_by lt x [] = [x]"
| "insort_by lt x (y # ys) = (if lt y x then y # insort_by lt x ys else x # y # ys)"

definition sort_by :: "('a \<Rightarrow> 'a \<Rightarrow> bool) \<Rightarrow> 'a list \<Rightarrow> 'a list" where
  "sort_by lt xs = foldr (insort_by lt) xs []"

text \<open>
  \<^verbatim>\<open>sorted(values)\<close>. A sort of two or more values compares every value with some
  other one and cannot place two values next to each other without having compared
  them, so it raises \<^verbatim>\<open>TypeError\<close> exactly when the list holds a \<^verbatim>\<open>None\<close> or
  holds a string together with a non-string. (Where numbers are mixed with \<^verbatim>\<open>nan\<close>
  Python returns an order that depends on the positions; the model returns the one
  of insertion sort.)
\<close>

fun is_str :: "cell \<Rightarrow> bool" where
  "is_str (CStr s) = True"
| "is_str c = False"

definition sortable :: "cell list \<Rightarrow> bool" where
  "sortable xs =
     (if length xs < 2 then True
      else if CNone \<in> set xs then False
      else if list_all is_str xs then True
      else list_ex is_str xs = False)"

definition cell_lt :: "cell \<Rightarrow> cell \<Rightarrow> bool" where
  "cell_lt a b = (case py_lt a b of Inr t \<Rightarrow> t | Inl e \<Rightarrow> False)"

definition py_sorted :: "cell list \<Rightarrow> error + cell list" where
  "py_sorted xs = (if sortable xs then Inr (sort_by cell_lt xs) else Inl TypeError)"

text \<open>
  Python's \<^verbatim>\<open>!=\<close> on two cells (\<^verbatim>\<open>nan != nan\<close> is true) and the truth value of a
  cell (\<^verbatim>\<open>None\<close>, the empty string and zero are false).
\<close>

definition py_ne :: "cell \<Rightarrow> cell \<Rightarrow> bool" where
  "py_ne a b = (if a = CNaN then True else a \<noteq> b)"

fun py_truthy :: "cell \<Rightarrow> bool" where
  "py_truthy CNone = False"
| "py_truthy CNaN = True"
| "py_truthy (CInt n) = (n \<noteq> 0)"
| "py_truthy (CFloat v txt) = True"
| "py_truthy (CStr s) = (s \<noteq> [])"

text \<open>\<^verbatim>\<open>str(x)\<close>, as f-strings and \<^verbatim>\<open>astype(str)\<close> apply it.\<close>

fun string_of_nat :: "nat \<Rightarrow> string" where
  "string_of_nat n =
     (if n < 10 then [''0123456789'' ! n]
      else string_of_nat (n div 10) @ [''0123456789'' ! (n mod 10)])"

definition string_of_int :: "int \<Rightarrow> string" where
  "string_of_int i = (if i < 0 then CHR ''-'' # string_of_nat (nat (- i)) else string_of_nat (nat i))"

fun py_str :: "cell \<Rightarrow> string" where
  "py_str CNone = ''None''"
| "py_str CNaN = ''nan''"
| "py_str (CInt n) = string_of_int n"
| "py_str (CFloat v txt) = txt"
| "py_str (CStr s) = s"

text \<open>
  \<^verbatim>\<open>c.strip()\<close> is used as a truth value: it is true when the string has a character
  that is not white space. Python's white space characters are U+0009 to U+000D, U+001C
  to U+0020, U+0085, U+00A0, U+1680, U+2000 to U+200A, U+2028, U+2029, U+202F, U+205F
  and U+3000; \<open>only_space\<close> reads their UTF-8 encodings off the bytes of the string. A
  number has no \<^verbatim>\<open>strip\<close> method.
\<close>

definition space1 :: "nat \<Rightarrow> bool" where
  "space1 a = ((9 \<le> a \<and> a \<le> 13) \<or> (28 \<le> a \<and> a \<le> 32))"

definition space2 :: "nat \<Rightarrow> nat \<Rightarrow> bool" where
  "space2 a b = (a = 194 \<and> (b = 133 \<or> b = 160))"

definition space3 :: "nat \<Rightarrow> nat \<Rightarrow> nat \<Rightarrow> bool" where
  "space3 a b c =
     ((a = 225 \<and> b = 154 \<and> c = 128) \<or>
      (a = 226 \<and> b = 128 \<and> ((128 \<le> c \<and> c \<le> 138) \<or> c = 168 \<or> c = 169 \<or> c = 175)) \<or>
      (a = 226 \<and> b = 129 \<and> c = 159) \<or>
      (a = 227 \<and> b = 128 \<and> c = 128))"

fun only_space :: "nat list \<Rightarrow> bool" where
  "only_space [] = True"
| "only_space [a] = space1 a"
| "only_space [a, b] = (if space1 a then only_space [b] else space2 a b)"
| "only_space (a # b # c # ds) =
     (if space1 a then only_space (b # c # ds)
      else if space2 a b then only_space (c # ds)
      else if space3 a b c then only_space ds
      else False)"

fun strip_truthy :: "cell \<Rightarrow> error + bool" where
  "strip_truthy (CStr s) = Inr (\<not> only_space (map of_char s))"
| "strip_truthy c = Inl AttributeError"

text \<open>
  \<^verbatim>\<open>[c for c in country_list if c.strip()]\<close>: the first element without a
  \<^verbatim>\<open>strip\<close> method ends the comprehension with \<^verbatim>\<open>AttributeError\<close>.
\<close>

fun keep_stripped :: "cell list \<Rightarrow> error + cell list" where
  "keep_stripped [] = Inr []"
| "keep_stripped (c # cs) =
     (case strip_truthy c of
        Inl e \<Rightarrow> Inl e
      | Inr keep \<Rightarrow>
          (case keep_stripped cs of
             Inl e \<Rightarrow> Inl e
           | Inr rest \<Rightarrow> Inr (if keep then c # rest else rest)))"

text \<open>
  \<^verbatim>\<open>st.selectbox(label, options, index)\<close> returns the option the user has picked,
  the option at \<open>index\<close> before any pick, and \<^verbatim>\<open>None\<close> for an empty option list.
  The user's pick is the position \<open>pick\<close> in the list; a position past the end of the
  current list stands for "no pick yet".
\<close>

definition selectbox :: "'a list \<Rightarrow> nat \<Rightarrow> nat \<Rightarrow> 'a option" where
  "selectbox options index pick =
     (if options = [] then None
      else Some (options ! (if pick < length options then pick else index)))"

definition or_none :: "cell option \<Rightarrow> cell" where
  "or_none v = (case v of None \<Rightarrow> CNone | Some c \<Rightarrow> c)"

text \<open>
  Comparing a column with a scalar, element by element. Against a missing scalar every
  comparison is false; a missing cell equals nothing and is in no range.
\<close>

definition pd_eq :: "cell \<Rightarrow> cell \<Rightarrow> bool" where
  "pd_eq c v = (\<not> isna v \<and> c = v)"

fun pd_ge :: "cell \<Rightarrow> cell \<Rightarrow> bool" where
  "pd_ge (CInt a) (CInt b) = (a \<ge> b)"
| "pd_ge c v = False"

fun pd_le :: "cell \<Rightarrow> cell \<Rightarrow> bool" where
  "pd_le (CInt a) (CInt b) = (a \<le> b)"
| "pd_le c v = False"

text \<open>
  \<^verbatim>\<open>pd.to_numeric(column, errors="coerce")\<close> on one cell. How pandas reads a string
  as a number is the parameter \<open>parse\<close>, which gives the number read (an integer, a
  fraction or an infinity), if any; a string it cannot read, and a missing value, become
  \<^verbatim>\<open>nan\<close>.
\<close>

type_synonym parser = "string \<Rightarrow> cell option"

fun to_numeric :: "parser \<Rightarrow> cell \<Rightarrow> cell" where
  "to_numeric parse (CInt n) = CInt n"
| "to_numeric parse (CFloat v txt) = CFloat v txt"
| "to_numeric parse (CStr s) =
     (case parse s of
        Some (CInt n) \<Rightarrow> CInt n
      | Some (CFloat v txt) \<Rightarrow> CFloat v txt
      | _ \<Rightarrow> CNaN)"
| "to_numeric parse c = CNaN"

text \<open>\<^verbatim>\<open>df[name] = f(df[name])\<close> for an element-wise \<open>f\<close>: an update in place.\<close>

definition map_column :: "string \<Rightarrow> (cell \<Rightarrow> cell) \<Rightarrow> dataframe \<Rightarrow> dataframe" where
  "map_column name f df = df\<lparr>rows := map (\<lambda>r. r(name := f (r name))) (rows df)\<rparr>"

text \<open>\<^verbatim>\<open>df[mask]\<close> and \<^verbatim>\<open>df.dropna(subset=names)\<close>: new dataframes.\<close>

definition select_rows :: "(row \<Rightarrow> bool) \<Rightarrow> dataframe \<Rightarrow> dataframe" where
  "select_rows keep df = df\<lparr>rows := filter keep (rows df)\<rparr>"

definition dropna_any :: "string list \<Rightarrow> dataframe \<Rightarrow> dataframe" where
  "dropna_any names df = select_rows (\<lambda>r. list_all (\<lambda>n. \<not> isna (r n)) names) df"

definition dropna_all :: "string list \<Rightarrow> dataframe \<Rightarrow> dataframe" where
  "dropna_all names df = select_rows (\<lambda>r. list_ex (\<lambda>n. \<not> isna (r n)) names) df"

text \<open>The integer in a cell that holds one (other cells count as 0).\<close>

fun num :: "cell \<Rightarrow> int" where
  "num (CInt n) = n"
| "num c = 0"

text \<open>\<^verbatim>\<open>df.sort_values(name)\<close> on a column of integers.\<close>

definition sort_values :: "string \<Rightarrow> dataframe \<Rightarrow> dataframe" where
  "sort_values name df = df\<lparr>rows := sort_key (\<lambda>r. num (r name)) (rows df)\<rparr>"

text \<open>
  The keys of \<^verbatim>\<open>groupby(name)\<close>: the distinct values that are not missing, in sorted
  order. Where numbers and strings are mixed pandas puts the numbers first.
\<close>

fun key_lt :: "cell \<Rightarrow> cell \<Rightarrow> bool" where
  "key_lt (CInt a) (CInt b) = (a < b)"
| "key_lt (CInt a) (CStr b) = True"
| "key_lt (CFloat v txt) (CStr b) = True"
| "key_lt (CStr a) (CStr b) = str_lt a b"
| "key_lt a b = number_lt a b"

definition group_keys :: "cell list \<Rightarrow> cell list" where
  "group_keys ks = sort_by key_lt (unique (dropna_values ks))"

text \<open>
  \<^verbatim>\<open>df.groupby(name).size()\<close> and \<^verbatim>\<open>df.groupby(name)[value].sum()\<close>. The sum of
  the values of one group is the parameter \<open>sum_of\<close>: pandas adds in \<^verbatim>\<open>int64\<close> or in
  \<^verbatim>\<open>float64\<close> arithmetic.
\<close>

definition groupby_size :: "string \<Rightarrow> dataframe \<Rightarrow> (cell \<times> nat) list" where
  "groupby_size name df =
     (let ks = map (\<lambda>r. r name) (rows df)
      in map (\<lambda>k. (k, count_list ks k)) (group_keys ks))"

definition groupby_sum ::
  "(cell list \<Rightarrow> 's) \<Rightarrow> string \<Rightarrow> string \<Rightarrow> dataframe \<Rightarrow> (cell \<times> 's) list" where
  "groupby_sum sum_of name val df =
     map (\<lambda>k. (k, sum_of (map (\<lambda>r. r val) (filter (\<lambda>r. r name = k) (rows df)))))
       (group_keys (map (\<lambda>r. r name) (rows df)))"

section \<open>What a renderer shows\<close>

text \<open>
  A renderer talks to Streamlit; the model records the calls that show something. The
  emoji that open some of the source's titles and messages are left out of the strings.
\<close>

text \<open>
  \<open>'s\<close> is the type of the sums a bar chart shows and \<open>'m\<close> the type of the means a
  comparison table shows, as the parameters \<open>agg_sum\<close> and \<open>agg_mean\<close> below give them.
\<close>

datatype 's chart =
    PieChart "cell list" "nat list"
  | LineChart "(cell \<times> nat) list" string
  | BarhChart "(cell \<times> 's) list" string
  | Choropleth "(cell \<times> nat) list" string

datatype ('s, 'm) ui_event =
    Header string
  | Write string
  | Warning string
  | ShowDataframe dataframe
  | Pyplot "'s chart"
  | PlotlyChart "'s chart"
  | ShowTable "cell \<times> 'm list" "string list" "cell \<times> 'm list"

text \<open>
  A renderer runs on the caller's dataframe object. Its result is the exception that
  ended it, if any, the calls it made before that, and the state in which it leaves the
  caller's dataframe.
\<close>

type_synonym ('s, 'm) rendered = "error option \<times> ('s, 'm) ui_event list \<times> dataframe"

text \<open>The columns the renderers read.\<close>

abbreviation type_col :: string where "type_col \<equiv> ''disaster_info.disaster_type''"
abbreviation year_col :: string where "year_col \<equiv> ''timeline.start_year''"
abbreviation country_col :: string where "country_col \<equiv> ''location_info.country''"
abbreviation iso_col :: string where "iso_col \<equiv> ''location_info.iso''"

section \<open>Table view and pie chart of disaster types (lines 58-83)\<close>


definition pie_buckets :: "(cell \<times> nat) list \<Rightarrow> cell list \<times> nat list" where
  "pie_buckets disaster_counts =
     (let top_10 = nlargest 10 disaster_counts;
          others_count = sum_list (map snd (drop 10 disaster_counts));
          disaster_labels = map fst top_10 @ (if others_count > 0 then [CStr ''Others''] else []);
          disaster_sizes = map snd top_10 @ (if others_count > 0 then [others_count] else [])
      in (disaster_labels, disaster_sizes))"

definition pie_chart_disaster_type :: "dataframe \<Rightarrow> ('s, 'm) rendered" where
  "pie_chart_disaster_type df =
     (let hdr = [Header ''Disaster Type Distribution'']
      in case getcol df type_col of
           None \<Rightarrow> (Some KeyError, hdr, df)
         | Some col \<Rightarrow>
             (let (disaster_labels, disaster_sizes) = pie_buckets (value_counts col)
              in (None, hdr @ [Pyplot (PieChart disaster_labels disaster_sizes)], df)))"

section \<open>Yearly trend of one disaster type (lines 86-127)\<close>

text \<open>
  Line 88 coerces the start years to numbers and casts them with
  \<^verbatim>\<open>astype("Int64")\<close>. The cast raises \<^verbatim>\<open>TypeError\<close> when a start year is a number
  that is no integer, and then nothing is assigned. Otherwise the coerced column is
  assigned to the dataframe the renderer was given, which is the caller's object.
  \<^verbatim>\<open>dropna\<close> on line 89 returns a new dataframe, so lines 90-92 work on a local copy
  (\<^verbatim>\<open>astype(int)\<close> leaves the integers as they are).
\<close>

fun is_float :: "cell \<Rightarrow> bool" where
  "is_float (CFloat v txt) = True"
| "is_float c = False"

definition coerce_year :: "parser \<Rightarrow> dataframe \<Rightarrow> error + dataframe" where
  "coerce_year parse df =
     (if list_ex (\<lambda>r. is_float (to_numeric parse (r year_col))) (rows df) then Inl TypeError
      else Inr (map_column year_col (to_numeric parse) df))"

definition trend_frame :: "dataframe \<Rightarrow> dataframe" where
  "trend_frame df = sort_values year_col (dropna_any [year_col] df)"

text \<open>
  Lines 109-113: the boolean mask. Its first two conditions (lines 110-111) are the year
  range, the third (line 112) is the disaster type.
\<close>

definition year_range_mask :: "cell \<Rightarrow> cell \<Rightarrow> row \<Rightarrow> bool" where
  "year_range_mask start_year end_year r =
     (pd_ge (r year_col) start_year \<and> pd_le (r year_col) end_year)"

definition trend_filter :: "cell \<Rightarrow> cell \<Rightarrow> cell \<Rightarrow> dataframe \<Rightarrow> dataframe" where
  "trend_filter start_year end_year disaster_type df =
     select_rows (\<lambda>r. year_range_mask start_year end_year r \<and>
                       pd_eq (r type_col) disaster_type) df"

text \<open>
  The year range as the specification words it: the start year is a number \<open>y\<close> with
  \<open>start \<le> y \<le> end\<close>.
\<close>

definition year_within :: "int \<Rightarrow> int \<Rightarrow> cell \<Rightarrow> bool" where
  "year_within start end c = (case c of CInt y \<Rightarrow> start \<le> y \<and> y \<le> end | _ \<Rightarrow> False)"

text \<open>Lines 115-127: the yearly counts, and the message or the chart made of them.\<close>

definition trend_view ::
  "cell \<Rightarrow> cell \<Rightarrow> cell \<Rightarrow> dataframe \<Rightarrow> ('s, 'm) ui_event" where
  "trend_view start_year end_year disaster_type df_filtered =
     (let df_trend = groupby_size year_col df_filtered
      in if df_trend = [] then Write ''No Records found.''
         else Pyplot (LineChart df_trend
                (''Trend of '' @ py_str disaster_type @ '' from '' @
                 py_str start_year @ '' to '' @ py_str end_year)))"

definition line_graph_disaster_trend ::
  "parser \<Rightarrow> nat \<Rightarrow> nat \<Rightarrow> nat \<Rightarrow> dataframe \<Rightarrow> ('s, 'm) rendered" where
  "line_graph_disaster_trend parse pick_start pick_end pick_type df0 =
     (let hdr = [Header ''Disaster Trend Line Graph'']
      in if year_col \<notin> set (columns df0) then (Some KeyError, hdr, df0)
         else
           case coerce_year parse df0 of
             Inl e \<Rightarrow> (Some e, hdr, df0)
           | Inr df1 \<Rightarrow>
               let df = trend_frame df1
               in case py_sorted (unique (map (\<lambda>r. r year_col) (rows df))) of
                    Inl e \<Rightarrow> (Some e, hdr, df1)
                  | Inr unique_years \<Rightarrow>
                      let start_year = or_none (selectbox unique_years 0 pick_start);
                          end_year =
                            (if length unique_years > 0
                             then or_none
                                    (selectbox unique_years (length unique_years - 1) pick_end)
                             else CNone)
                      in case getcol df type_col of
                           None \<Rightarrow> (Some KeyError, hdr, df1)
                         | Some types \<Rightarrow>
                             (case py_sorted (unique types) of
                                Inl e \<Rightarrow> (Some e, hdr, df1)
                              | Inr type_options \<Rightarrow>
                                  let disaster_type =
                                        or_none (selectbox type_options 0 pick_type);
                                      df_filtered =
                                        trend_filter start_year end_year disaster_type df
                                  in (None,
                                      hdr @ [trend_view start_year end_year disaster_type
                                               df_filtered],
                                      df1)))"

section \<open>Average impact of two disaster types (lines 130-187)\<close>

definition metrics :: "string list" where
  "metrics =
     [''impact_info.total_deaths'',
      ''financial_info.reconstruction_cost_usd_adjusted'',
      ''financial_info.insured_damage_usd_adjusted'',
      ''financial_info.total_damage_usd_adjusted'',
      ''impact_info.injured_number'',
      ''impact_info.affected_number'',
      ''impact_info.homeless_number'',
      ''impact_info.total_affected'']"

definition metric_titles :: "string list" where
  "metric_titles =
     [''Total Deaths'', ''Reconstruction Cost (USD Adjusted)'', ''Insured Damage (USD Adjusted)'',
      ''Total Damage (USD Adjusted)'', ''Injured Number'', ''Affected Number'',
      ''Homeless Number'', ''Total Affected'']"

text \<open>Line 133: the sorted distinct disaster types that are not missing.\<close>

definition disaster_types_of :: "cell list \<Rightarrow> error + cell list" where
  "disaster_types_of col = py_sorted (unique (dropna_values col))"

text \<open>Line 157: the options for "Disaster B".\<close>

definition disaster_b_options :: "cell list \<Rightarrow> cell \<Rightarrow> cell list" where
  "disaster_b_options disaster_types disaster_a = filter (\<lambda>d. py_ne d disaster_a) disaster_types"

text \<open>
  \<^verbatim>\<open>Series.mean()\<close> skips missing values. What it computes from the numbers that are
  left, and what line 172 makes of it (the text "nan" where the mean is \<^verbatim>\<open>nan\<close>, as for
  no numbers at all), is the parameter \<open>agg_mean\<close>. pandas computes in the number type
  that \<^verbatim>\<open>to_numeric\<close> gave the whole column, so \<open>agg_mean\<close> is given that column
  (\<open>whole\<close>) besides the numbers to average.
\<close>

definition column_mean :: "(cell list \<Rightarrow> cell list \<Rightarrow> 'm) \<Rightarrow> cell list \<Rightarrow> cell list \<Rightarrow> 'm" where
  "column_mean agg_mean whole xs = agg_mean whole (dropna_values xs)"

text \<open>
  Lines 169-173 for one disaster type: \<open>df1\<close> is the dataframe with the coerced
  metrics, \<open>df\<close> what line 151 leaves of it.
\<close>

definition mean_by_type ::
  "(cell list \<Rightarrow> cell list \<Rightarrow> 'm) \<Rightarrow> dataframe \<Rightarrow> dataframe \<Rightarrow> cell \<Rightarrow> 'm list" where
  "mean_by_type agg_mean df1 df t =
     (let sub = select_rows (\<lambda>r. pd_eq (r type_col) t) df
      in map (\<lambda>m. column_mean agg_mean (map (\<lambda>r. r m) (rows df1)) (map (\<lambda>r. r m) (rows sub)))
           metrics)"

definition coerce_metrics :: "parser \<Rightarrow> dataframe \<Rightarrow> dataframe" where
  "coerce_metrics parse df = fold (\<lambda>m. map_column m (to_numeric parse)) metrics df"

definition disaster_impact_comparison_table ::
  "parser \<Rightarrow> (cell list \<Rightarrow> cell list \<Rightarrow> 'm) \<Rightarrow> nat \<Rightarrow> nat \<Rightarrow> dataframe \<Rightarrow> ('s, 'm) rendered" where
  "disaster_impact_comparison_table parse agg_mean pick_a pick_b df0 =
     (let hdr = [Header ''Disaster Average Impact Comparison'']
      in case getcol df0 type_col of
           None \<Rightarrow> (Some KeyError, hdr, df0)
         | Some col \<Rightarrow>
             (case disaster_types_of col of
                Inl e \<Rightarrow> (Some e, hdr, df0)
              | Inr disaster_types \<Rightarrow>
                  if length disaster_types < 2
                  then (None,
                        hdr @ [Warning ''Not enough disaster types available for comparison.''],
                        df0)
                  else if list_ex (\<lambda>m. m \<notin> set (columns df0)) metrics
                  then (Some KeyError, hdr, df0)
                  else
                    let df1 = coerce_metrics parse df0;
                        df = dropna_all metrics df1;
                        disaster_a = or_none (selectbox disaster_types 0 pick_a);
                        options = disaster_b_options disaster_types disaster_a;
                        disaster_b =
                          (if options \<noteq> [] then or_none (selectbox options 0 pick_b) else CNone)
                    in if \<not> py_truthy disaster_b
                       then (None,
                             hdr @ [Warning ''Please select different disasters for comparison.''],
                             df1)
                       else (None,
                             hdr @ [ShowTable (disaster_a, mean_by_type agg_mean df1 df disaster_a)
                                      metric_titles
                                      (disaster_b, mean_by_type agg_mean df1 df disaster_b)],
                             df1)))"

section \<open>Country page (lines 190-203)\<close>

text \<open>Lines 191-195: the options of the country select box.\<close>

definition country_options :: "cell list \<Rightarrow> error + cell list" where
  "country_options col =
     (case keep_stripped (unique (dropna_values col)) of
        Inl e \<Rightarrow> Inl e
      | Inr named \<Rightarrow>
          (case py_sorted named of
             Inl e \<Rightarrow> Inl e
           | Inr sorted_names \<Rightarrow> Inr (CStr ''All Countries'' # sorted_names)))"

definition country_wise_data_page :: "nat \<Rightarrow> dataframe \<Rightarrow> ('s, 'm) rendered" where
  "country_wise_data_page pick df =
     (case getcol df country_col of
        None \<Rightarrow> (Some KeyError, [], df)
      | Some col \<Rightarrow>
          (case country_options col of
             Inl e \<Rightarrow> (Some e, [], df)
           | Inr country_list \<Rightarrow>
               let selected_country = or_none (selectbox country_list 0 pick);
                   df_filtered =
                     (if py_ne selected_country (CStr ''All Countries'')
                      then select_rows (\<lambda>r. pd_eq (r country_col) selected_country) df
                      else df)
               in (None, [ShowDataframe df_filtered], df)))"

section \<open>Impact bar chart (lines 206-238)\<close>

definition impact_metrics :: "(string \<times> string) list" where
  "impact_metrics =
     [(''Total Deaths'', ''impact_info.total_deaths''),
      (''Injured Number'', ''impact_info.injured_number''),
      (''Affected Number'', ''impact_info.affected_number''),
      (''Homeless Number'', ''impact_info.homeless_number''),
      (''Total Affected'', ''impact_info.total_affected''),
      (''Reconstruction Cost (USD)'', ''financial_info.reconstruction_cost_usd_adjusted''),
      (''Insured Damage (USD)'', ''financial_info.insured_damage_usd_adjusted''),
      (''Total Damage (USD)'', ''financial_info.total_damage_usd_adjusted'')]"

text \<open>
  Lines 223-228 for a metric column that is present. The sum of a group's numbers is the
  parameter \<open>agg_sum\<close>; like \<open>agg_mean\<close> it is given the whole coerced column besides
  the numbers to add. Its results are of a type \<open>'s\<close> with a linear order, the order in
  which \<^verbatim>\<open>sort_values(ascending=True)\<close> arranges sums.
\<close>

definition bar_groups ::
  "parser \<Rightarrow> (cell list \<Rightarrow> cell list \<Rightarrow> 's::linorder) \<Rightarrow> string \<Rightarrow> dataframe \<Rightarrow> (cell \<times> 's) list" where
  "bar_groups parse agg_sum selected_metric df0 =
     (let df1 = map_column selected_metric (to_numeric parse) df0;
          df_filtered = dropna_any [selected_metric] df1;
          df_grouped =
            groupby_sum (agg_sum (map (\<lambda>r. r selected_metric) (rows df1)))
              type_col selected_metric df_filtered
      in sort_key snd df_grouped)"

definition bar_chart_disaster_vs_impact ::
  "parser \<Rightarrow> (cell list \<Rightarrow> cell list \<Rightarrow> 's::linorder) \<Rightarrow> nat \<Rightarrow> dataframe \<Rightarrow> ('s, 'm) rendered" where
  "bar_chart_disaster_vs_impact parse agg_sum pick_metric df0 =
     (let hdr = [Header ''Impact of Different Disaster'']
      in case selectbox (map fst impact_metrics) 0 pick_metric of
           None \<Rightarrow> (Some KeyError, hdr, df0)
         | Some selected_metric_label \<Rightarrow>
             (case map_of impact_metrics selected_metric_label of
                None \<Rightarrow> (Some KeyError, hdr, df0)
              | Some selected_metric \<Rightarrow>
                  if selected_metric \<notin> set (columns df0) then (Some KeyError, hdr, df0)
                  else
                    let df1 = map_column selected_metric (to_numeric parse) df0
                    in if type_col \<notin> set (columns df1) then (Some KeyError, hdr, df1)
                       else (None,
                             hdr @ [Pyplot (BarhChart (bar_groups parse agg_sum selected_metric df0)
                                      (''Total '' @ selected_metric_label @ '' by Disaster Type''))],
                             df1)))"

section \<open>Pie chart of one country's disaster types (lines 241-267)\<close>

definition country_pie_buckets :: "(cell \<times> nat) list \<Rightarrow> cell list \<times> nat list" where
  "country_pie_buckets disaster_counts =
     (let top_disasters = take 10 disaster_counts;
          others_sum = sum_list (map snd (drop 10 disaster_counts));
          top_disasters =
            (if others_sum > 0 then top_disasters @ [(CStr ''Others'', others_sum)]
             else top_disasters)
      in (map fst top_disasters, map snd top_disasters))"

definition pie_chart_disaster_type_by_country :: "nat \<Rightarrow> dataframe \<Rightarrow> ('s, 'm) rendered" where
  "pie_chart_disaster_type_by_country pick df =
     (let hdr = [Header ''Disaster Types by Country'']
      in case getcol df country_col of
           None \<Rightarrow> (Some KeyError, hdr, df)
         | Some col \<Rightarrow>
             (case py_sorted (unique (dropna_values col)) of
                Inl e \<Rightarrow> (Some e, hdr, df)
              | Inr sorted_names \<Rightarrow>
                  (case keep_stripped sorted_names of
                     Inl e \<Rightarrow> (Some e, hdr, df)
                   | Inr country_list \<Rightarrow>
                       let selected_country = or_none (selectbox country_list 0 pick);
                           df_filtered =
                             select_rows (\<lambda>r. pd_eq (r country_col) selected_country) df
                       in if rows df_filtered = []
                          then (None,
                                hdr @ [Warning (''No disaster data available for '' @
                                         py_str selected_country @ ''.'')],
                                df)
                          else
                            (case getcol df_filtered type_col of
                               None \<Rightarrow> (Some KeyError, hdr, df)
                             | Some types \<Rightarrow>
                                 let (labels, sizes) = country_pie_buckets (value_counts types)
                                 in (None, hdr @ [Pyplot (PieChart labels sizes)], df)))))"

section \<open>World map (lines 270-309)\<close>




section \<open>The rows an aggregation takes, as the specification words them\<close>



section \<open>Example tables\<close>

text \<open>A column with twelve distinct disaster types and two missing entries.\<close>

definition twelve_types :: "cell list" where
  "twelve_types =
     [CStr ''Flood'', CInt 1, CInt 2, CNone, CInt 3, CInt 4, CInt 5, CInt 6, CInt 7, CStr ''Flood'',
      CInt 8, CInt 9, CNaN, CInt 10, CStr ''Storm'', CStr ''Flood'']"

text \<open>
  Five records of two disaster types: start years given as numbers and as text, one of
  them unreadable.
\<close>

definition two_type_table :: dataframe where
  "two_type_table =
     \<lparr>columns = [type_col, year_col],
      rows = [(\<lambda>c. CNaN)(type_col := CStr ''Flood'', year_col := CInt 2001),
              (\<lambda>c. CNaN)(type_col := CStr ''Flood'', year_col := CStr ''2000''),
              (\<lambda>c. CNaN)(type_col := CStr ''Storm'', year_col := CInt 2000),
              (\<lambda>c. CNaN)(type_col := CStr ''Flood'', year_col := CStr ''unknown''),
              (\<lambda>c. CNaN)(type_col := CStr ''Flood'', year_col := CInt 1999)]\<rparr>"

definition read_year :: parser where
  "read_year = [''2000'' \<mapsto> CInt 2000, ''2001'' \<mapsto> CInt 2001]"

text \<open>A disaster type column with three distinct types and two missing entries.\<close>

definition some_types :: "cell list" where
  "some_types = [CStr ''Storm'', CNaN, CStr ''Flood'', CStr ''Storm'', CNone, CStr ''Drought'']"

text \<open>A table with a single disaster type.\<close>

definition one_type_table :: dataframe where
  "one_type_table =
     \<lparr>columns = [type_col, ''impact_info.total_deaths''],
      rows = [(\<lambda>c. CNaN)(type_col := CStr ''Flood'', ''impact_info.total_deaths'' := CInt 12),
              (\<lambda>c. CNaN)(type_col := CNone, ''impact_info.total_deaths'' := CInt 7),
              (\<lambda>c. CNaN)(type_col := CStr ''Flood'', ''impact_info.total_deaths'' := CStr ''3'')]\<rparr>"

text \<open>A table with two named countries, a blank one and a missing one.\<close>

definition country_table :: dataframe where
  "country_table =
     \<lparr>columns = [type_col, country_col],
      rows = [(\<lambda>c. CNaN)(type_col := CStr ''Flood'', country_col := CStr ''Peru''),
              (\<lambda>c. CNaN)(type_col := CStr ''Storm'', country_col := CStr ''Japan''),
              (\<lambda>c. CNaN)(type_col := CStr ''Flood'', country_col := CNaN),
              (\<lambda>c. CNaN)(type_col := CStr ''Storm'', country_col := CStr '' ''),
              (\<lambda>c. CNaN)(type_col := CStr ''Quake'', country_col := CStr ''Peru'')]\<rparr>"

text \<open>A table of death counts, given as numbers, as text and missing.\<close>

definition deaths_table :: dataframe where
  "deaths_table =
     \<lparr>columns = type_col # metrics,
      rows = [(\<lambda>c. CNaN)(type_col := CStr ''Flood'', ''impact_info.total_deaths'' := CInt 10),
              (\<lambda>c. CNaN)(type_col := CStr ''Storm'', ''impact_info.total_deaths'' := CStr ''3''),
              (\<lambda>c. CNaN)(type_col := CStr ''Flood'', ''impact_info.total_deaths'' := CInt 5),
              (\<lambda>c. CNaN)(type_col := CStr ''Quake'', ''impact_info.total_deaths'' := CStr ''n/a''),
              (\<lambda>c. CNaN)(type_col := CStr ''Storm'', ''impact_info.total_deaths'' := CInt 1),
              (\<lambda>c. CNaN)(type_col := CStr ''Flood'', ''impact_info.total_deaths'' := CNone)]\<rparr>"

definition read_number :: parser where
  "read_number = [''3'' \<mapsto> CInt 3]"

text \<open>Two flood records, the first with its start year given as text.\<close>

definition text_year_table :: dataframe where
  "text_year_table =
     \<lparr>columns = [type_col, year_col],
      rows = [(\<lambda>c. CNaN)(type_col := CStr ''Flood'', year_col := CStr ''2000''),
              (\<lambda>c. CNaN)(type_col := CStr ''Flood'', year_col := CInt 2001)]\<rparr>"

text \<open>A table in which no record has a readable death count.\<close>

definition unreadable_table :: dataframe where
  "unreadable_table =
     \<lparr>columns = type_col # metrics,
      rows = [(\<lambda>c. CNaN)(type_col := CStr ''Flood'', ''impact_info.total_deaths'' := CStr ''n/a''),
              (\<lambda>c. CNaN)(type_col := CStr ''Storm'', ''impact_info.total_deaths'' := CNone)]\<rparr>"

text \<open>A table in which no record names a country.\<close>

definition blank_country_table :: dataframe where
  "blank_country_table =
     \<lparr>columns = [type_col, country_col],
      rows = [(\<lambda>c. CNaN)(type_col := CStr ''Flood'', country_col := CStr '' ''),
              (\<lambda>c. CNaN)(type_col := CStr ''Storm'', country_col := CNaN)]\<rparr>"

text \<open>A table of sixteen records of one country, with the twelve types above.\<close>

definition twelve_table :: dataframe where
  "twelve_table =
     \<lparr>columns = [type_col, country_col],
      rows = map (\<lambda>t. (\<lambda>c. CNaN)(type_col := t, country_col := CStr ''Peru'')) twelve_types\<rparr>"

text \<open>
  Sum and mean in exact integer arithmetic, which is what pandas computes as long as
  nothing overflows or is rounded: the parameters with which the examples are run.
\<close>

definition exact_sum :: "cell list \<Rightarrow> cell list \<Rightarrow> int" where
  "exact_sum whole vs = sum_list (map num vs)"

definition exact_mean :: "cell list \<Rightarrow> cell list \<Rightarrow> rat option" where
  "exact_mean whole vs =
     (if vs = [] then None else Some (of_int (sum_list (map num vs)) / of_nat (length vs)))"

text \<open>
  Two records with every column the renderers read: a start year and a death count given
  as text, and a missing ISO code.
\<close>

definition full_table :: dataframe where
  "full_table =
     \<lparr>columns = [type_col, year_col, country_col, iso_col] @ metrics,
      rows = [(\<lambda>c. CNaN)(type_col := CStr ''Flood'', year_col := CStr ''2000'',
                country_col := CStr ''Peru'', iso_col := CNone,
                ''impact_info.total_deaths'' := CStr ''3''),
              (\<lambda>c. CNaN)(type_col := CStr ''Storm'', year_col := CInt 2001,
                country_col := CStr ''Peru'', iso_col := CStr ''PER'',
                ''impact_info.total_deaths'' := CInt 1)]\<rparr>"

section \<open>Properties of the pandas primitives\<close>

lemma unique_set: "set (unique xs) = set xs"
  by (induction xs rule: unique.induct) auto

lemma unique_distinct: "distinct (unique xs)"
  by (induction xs rule: unique.induct) (auto simp: unique_set)

lemma sum_counts_unique: "sum_list (map (count_list ys) (unique ys)) = length ys"
proof -
  have "sum_list (map (count_list ys) (unique ys)) = sum (count_list ys) (set (unique ys))"
    by (rule sum_list_distinct_conv_sum_set[OF unique_distinct])
  also have "\<dots> = length ys"
    by (simp add: unique_set sum_count_set)
  finally show ?thesis .
qed

lemma sum_by_count_desc: "sum_list (map snd (by_count_desc s)) = sum_list (map snd s)"
proof -
  have "mset (map snd (by_count_desc s)) = mset (map snd s)"
    unfolding by_count_desc_def by simp
  then show ?thesis by (metis sum_mset_sum_list)
qed

lemma by_count_desc_idem: "by_count_desc (by_count_desc s) = by_count_desc s"
  unfolding by_count_desc_def by (rule sort_key_id_if_sorted) simp

lemma value_counts_sum: "sum_list (map snd (value_counts col)) = length (dropna_values col)"
  by (simp add: value_counts_def Let_def sum_by_count_desc comp_def sum_counts_unique)

lemma value_counts_length: "length (value_counts col) = length (unique (dropna_values col))"
  by (simp add: value_counts_def Let_def by_count_desc_def)

lemma value_counts_descending: "sorted (rev (map snd (value_counts col)))"
proof -
  have "sorted (map (\<lambda>p. - int (snd p)) (value_counts col))"
    by (simp add: value_counts_def by_count_desc_def Let_def)
  then show ?thesis
    by (simp add: sorted_wrt_rev sorted_wrt_map)
qed

text \<open>On the output of \<open>value_counts\<close>, \<open>nlargest\<close> is the positional slice.\<close>

lemma nlargest_value_counts: "nlargest n (value_counts col) = take n (value_counts col)"
  by (simp add: nlargest_def value_counts_def Let_def by_count_desc_idem)

lemma value_counts_positive:
  assumes "p \<in> set (value_counts col)"
  shows "0 < snd p"
proof -
  from assms obtain v where v: "v \<in> set (dropna_values col)"
    and p: "p = (v, count_list (dropna_values col) v)"
    by (auto simp: value_counts_def Let_def by_count_desc_def unique_set)
  from v have "count_list (dropna_values col) v \<noteq> 0"
    by (simp add: count_list_0_iff)
  with p show ?thesis by simp
qed

lemma set_insort_by: "set (insort_by lt x xs) = insert x (set xs)"
  by (induction xs) auto

lemma set_sort_by: "set (sort_by lt xs) = set xs"
  unfolding sort_by_def by (induction xs) (auto simp: set_insort_by)

lemma length_insort_by: "length (insort_by lt x xs) = Suc (length xs)"
  by (induction xs) auto

lemma length_sort_by: "length (sort_by lt xs) = length xs"
  unfolding sort_by_def by (induction xs) (auto simp: length_insort_by)

lemma py_sorted_set: "py_sorted xs = Inr ys \<Longrightarrow> set ys = set xs"
  by (auto simp: py_sorted_def set_sort_by split: if_splits)

lemma py_sorted_length: "py_sorted xs = Inr ys \<Longrightarrow> length ys = length xs"
  by (auto simp: py_sorted_def length_sort_by split: if_splits)

lemma py_sorted_short: "length xs < 2 \<Longrightarrow> py_sorted xs = Inr (sort_by cell_lt xs)"
  by (simp add: py_sorted_def sortable_def)

lemma selectbox_member: "selectbox opts 0 pick = Some x \<Longrightarrow> x \<in> set opts"
  by (auto simp: selectbox_def split: if_splits)


lemma or_none_selectbox_member:
  "opts \<noteq> [] \<Longrightarrow> or_none (selectbox opts 0 pick) \<in> set opts"
  by (auto simp: selectbox_def or_none_def)

lemma length_unique_card: "length (unique xs) = card (set xs)"
  using distinct_card[OF unique_distinct, of xs] by (simp add: unique_set)

lemma keep_stripped_strings:
  "keep_stripped xs = Inr ys \<Longrightarrow> y \<in> set ys \<Longrightarrow> is_str y"
proof (induction xs arbitrary: ys)
  case Nil
  then show ?case by simp
next
  case (Cons c cs)
  then show ?case
    by (cases c) (auto split: sum.splits if_splits)
qed











lemma keep_stripped_subset:
  "keep_stripped xs = Inr ys \<Longrightarrow> set ys \<subseteq> set xs"
proof (induction xs arbitrary: ys)
  case Nil
  then show ?case by simp
next
  case (Cons c cs)
  then show ?case
    by (cases c) (auto split: sum.splits if_splits)
qed

section \<open>Pie chart bucketing\<close>

lemma others_positive_iff:
  "(0 < sum_list (map snd (drop 10 (value_counts col)))) = (10 < length (value_counts col))"
proof (cases "drop 10 (value_counts col)")
  case Nil
  then show ?thesis by simp
next
  case (Cons p ps)
  then have "p \<in> set (value_counts col)"
    by (metis in_set_dropD list.set_intros(1))
  then have "0 < snd p" by (rule value_counts_positive)
  with Cons show ?thesis by (cases "10 < length (value_counts col)") auto
qed

lemma pie_buckets_value_counts:
  "pie_buckets (value_counts col) =
     (map fst (take 10 (value_counts col)) @
        (if 10 < length (value_counts col) then [CStr ''Others''] else []),
      map snd (take 10 (value_counts col)) @
        (if 10 < length (value_counts col)
         then [sum_list (map snd (drop 10 (value_counts col)))] else []))"
  using others_positive_iff[of col]
  by (simp add: pie_buckets_def Let_def nlargest_value_counts)

lemma country_pie_buckets_value_counts:
  "country_pie_buckets (value_counts col) = pie_buckets (value_counts col)"
  using others_positive_iff[of col]
  by (simp add: country_pie_buckets_def pie_buckets_value_counts Let_def)

lemma sum_take_drop:
  "sum_list (map snd (take n xs)) + sum_list (map snd (drop n xs)) =
   sum_list (map snd (xs :: ('a \<times> nat) list))"
  by (metis append_take_drop_id map_append sum_list.append)


lemma buckets_of_value_counts:
  "let counts = value_counts col;
       many = (10 < length (unique (dropna_values col)))
   in sorted (rev (map snd counts)) \<and>
      pie_buckets counts =
        (map fst (take 10 counts) @ (if many then [CStr ''Others''] else []),
         map snd (take 10 counts) @ (if many then [sum_list (map snd (drop 10 counts))] else [])) \<and>
      country_pie_buckets counts = pie_buckets counts \<and>
      length (fst (pie_buckets counts)) \<le> 11 \<and>
      length (snd (pie_buckets counts)) = length (fst (pie_buckets counts)) \<and>
      sum_list (snd (pie_buckets counts)) = sum_list (map snd counts) \<and>
      sum_list (map snd counts) = length (dropna_values col)"
proof -
  let ?c = "value_counts col"
  have len: "length ?c = length (unique (dropna_values col))"
    by (rule value_counts_length)
  have b: "pie_buckets ?c =
        (map fst (take 10 ?c) @ (if 10 < length ?c then [CStr ''Others''] else []),
         map snd (take 10 ?c) @
           (if 10 < length ?c then [sum_list (map snd (drop 10 ?c))] else []))"
    by (rule pie_buckets_value_counts)
  have l1: "length (fst (pie_buckets ?c)) \<le> 11"
    by (simp add: b)
  have l2: "length (snd (pie_buckets ?c)) = length (fst (pie_buckets ?c))"
    by (simp add: b)
  have s: "sum_list (snd (pie_buckets ?c)) = sum_list (map snd ?c)"
  proof (cases "10 < length ?c")
    case True
    then show ?thesis using sum_take_drop[of 10 ?c] by (simp add: b)
  next
    case False
    then show ?thesis by (simp add: b)
  qed
  show ?thesis
    unfolding Let_def
    using value_counts_descending[of col] b l1 l2 s country_pie_buckets_value_counts[of col]
      value_counts_sum[of col]
    by (simp add: len)
qed

lemma pie_chart_shows_buckets:
  assumes "getcol df type_col = Some col"
  shows "pie_chart_disaster_type df =
           (None,
            [Header ''Disaster Type Distribution'',
             Pyplot (PieChart (fst (pie_buckets (value_counts col)))
                       (snd (pie_buckets (value_counts col))))],
            df)"
  using assms by (simp add: pie_chart_disaster_type_def Let_def case_prod_beta)

lemma country_pie_shows_buckets:
  assumes "getcol df type_col = Some col"
    and "getcol df country_col = Some ccol"
    and "py_sorted (unique (dropna_values ccol)) = Inr names"
    and "keep_stripped names = Inr country_list"
    and "selectbox country_list 0 pick = Some sel"
  shows "pie_chart_disaster_type_by_country pick df =
           (None,
            [Header ''Disaster Types by Country'',
             Pyplot (PieChart
               (fst (country_pie_buckets (value_counts
                  (map (\<lambda>r. r type_col) (filter (\<lambda>r. r country_col = sel) (rows df))))))
               (snd (country_pie_buckets (value_counts
                  (map (\<lambda>r. r type_col) (filter (\<lambda>r. r country_col = sel) (rows df)))))))],
            df)"
proof -
  from assms(5) have m: "sel \<in> set country_list" by (rule selectbox_member)
  with assms(4) have "is_str sel" by (rule keep_stripped_strings)
  then obtain name where n: "sel = CStr name" by (cases sel) simp_all
  from m assms(4) have "sel \<in> set names" using keep_stripped_subset by blast
  with assms(3) have "sel \<in> set ccol"
    using py_sorted_set[of "unique (dropna_values ccol)" names]
    by (auto simp: unique_set dropna_values_def)
  with assms(2) have "filter (\<lambda>r. r country_col = sel) (rows df) \<noteq> []"
    by (auto simp: getcol_def filter_empty_conv split: if_splits)
  moreover from assms(1) have "type_col \<in> set (columns df)"
    by (simp add: getcol_def split: if_splits)
  ultimately show ?thesis
    using assms(2-5)
    by (simp add: pie_chart_disaster_type_by_country_def Let_def case_prod_beta or_none_def n
        pd_eq_def select_rows_def getcol_def)
qed

text \<open>
  C1. For a table with a disaster type column, the pie chart of disaster types shows the
  buckets of that column's value counts (lines 65-71), and the pie chart of a country,
  for every country that can be selected, shows the buckets of the value counts of the
  disaster types of that country's rows (lines 249-261). For every column, both ways of
  bucketing its value counts agree: the counts are in descending order, the buckets
  are the first ten of them, followed by an "Others" bucket exactly when there are more
  than ten distinct types. So there are at most 11 buckets, one size per label, and the
  sizes add up to the sum of the counts of all types, which is the number of entries of
  the column that are not missing.
\<close>

theorem pie_charts_bucket_the_type_column:
  assumes "getcol df type_col = Some col"
  shows "pie_chart_disaster_type df =
           (None,
            [Header ''Disaster Type Distribution'',
             Pyplot (PieChart (fst (pie_buckets (value_counts col)))
                       (snd (pie_buckets (value_counts col))))],
            df) \<and>
         (\<forall>ccol names country_list pick sel.
            getcol df country_col = Some ccol \<longrightarrow>
            py_sorted (unique (dropna_values ccol)) = Inr names \<longrightarrow>
            keep_stripped names = Inr country_list \<longrightarrow>
            selectbox country_list 0 pick = Some sel \<longrightarrow>
            pie_chart_disaster_type_by_country pick df =
              (None,
               [Header ''Disaster Types by Country'',
                Pyplot (PieChart
                  (fst (country_pie_buckets (value_counts
                     (map (\<lambda>r. r type_col) (filter (\<lambda>r. r country_col = sel) (rows df))))))
                  (snd (country_pie_buckets (value_counts
                     (map (\<lambda>r. r type_col) (filter (\<lambda>r. r country_col = sel) (rows df)))))))],
               df)) \<and>
         (\<forall>c. let counts = value_counts c;
                  many = (10 < length (unique (dropna_values c)))
              in sorted (rev (map snd counts)) \<and>
                 pie_buckets counts =
                   (map fst (take 10 counts) @ (if many then [CStr ''Others''] else []),
                    map snd (take 10 counts) @
                      (if many then [sum_list (map snd (drop 10 counts))] else [])) \<and>
                 country_pie_buckets counts = pie_buckets counts \<and>
                 length (fst (pie_buckets counts)) \<le> 11 \<and>
                 length (snd (pie_buckets counts)) = length (fst (pie_buckets counts)) \<and>
                 sum_list (snd (pie_buckets counts)) = sum_list (map snd counts) \<and>
                 sum_list (map snd counts) = length (dropna_values c))"
  using pie_chart_shows_buckets[OF assms] country_pie_shows_buckets[OF assms]
    buckets_of_value_counts
  by blast

lemma value_counts_twelve_types:
  "value_counts twelve_types =
     [(CStr ''Flood'', 3), (CInt 1, 1), (CInt 2, 1), (CInt 3, 1), (CInt 4, 1), (CInt 5, 1),
      (CInt 6, 1), (CInt 7, 1), (CInt 8, 1), (CInt 9, 1), (CInt 10, 1), (CStr ''Storm'', 1)]"
  by (simp add: twelve_types_def value_counts_def dropna_values_def by_count_desc_def Let_def)

lemma twelve_table_types: "getcol twelve_table type_col = Some twelve_types"
  by (simp add: getcol_def twelve_table_def comp_def)

lemma twelve_table_countries:
  "getcol twelve_table country_col = Some (map (\<lambda>t. CStr ''Peru'') twelve_types)"
  by (simp add: getcol_def twelve_table_def comp_def)

lemma twelve_table_country_names:
  "py_sorted (unique (dropna_values (map (\<lambda>t. CStr ''Peru'') twelve_types))) = Inr [CStr ''Peru'']"
  by (simp add: twelve_types_def dropna_values_def py_sorted_def sortable_def sort_by_def)

lemma twelve_table_country_list: "keep_stripped [CStr ''Peru''] = Inr [CStr ''Peru'']"
  by (simp add: space1_def space2_def space3_def)

lemma twelve_table_peru:
  "map (\<lambda>r. r type_col) (filter (\<lambda>r. r country_col = CStr ''Peru'') (rows twelve_table)) =
     twelve_types"
  by (simp add: twelve_table_def filter_map comp_def)

theorem pie_charts_bucket_the_type_column_witness:
  "getcol twelve_table type_col = Some twelve_types \<and>
   length (dropna_values twelve_types) = 14 \<and>
   pie_chart_disaster_type twelve_table =
     (None,
      [Header ''Disaster Type Distribution'',
       Pyplot (PieChart
         [CStr ''Flood'', CInt 1, CInt 2, CInt 3, CInt 4, CInt 5, CInt 6, CInt 7, CInt 8, CInt 9,
          CStr ''Others'']
         [3, 1, 1, 1, 1, 1, 1, 1, 1, 1, 2])],
      twelve_table) \<and>
   selectbox [CStr ''Peru''] 0 0 = Some (CStr ''Peru'') \<and>
   pie_chart_disaster_type_by_country 0 twelve_table =
     (None,
      [Header ''Disaster Types by Country'',
       Pyplot (PieChart
         [CStr ''Flood'', CInt 1, CInt 2, CInt 3, CInt 4, CInt 5, CInt 6, CInt 7, CInt 8, CInt 9,
          CStr ''Others'']
         [3, 1, 1, 1, 1, 1, 1, 1, 1, 1, 2])],
      twelve_table)"
proof -
  have s: "selectbox [CStr ''Peru''] 0 0 = Some (CStr ''Peru'')"
    by (simp add: selectbox_def)
  have l: "length (dropna_values twelve_types) = 14"
    by (simp add: twelve_types_def dropna_values_def)
  have b: "pie_buckets (value_counts twelve_types) =
     ([CStr ''Flood'', CInt 1, CInt 2, CInt 3, CInt 4, CInt 5, CInt 6, CInt 7, CInt 8, CInt 9,
       CStr ''Others''],
      [3, 1, 1, 1, 1, 1, 1, 1, 1, 1, 2])"
    using pie_buckets_value_counts[of twelve_types] by (simp add: value_counts_twelve_types)
  note main = pie_charts_bucket_the_type_column[OF twelve_table_types]
  from main have c: "country_pie_buckets (value_counts twelve_types) =
      pie_buckets (value_counts twelve_types)"
    unfolding Let_def by blast
  from main twelve_table_countries twelve_table_country_names twelve_table_country_list s
  have "pie_chart_disaster_type_by_country 0 twelve_table =
              (None,
               [Header ''Disaster Types by Country'',
                Pyplot (PieChart
                  (fst (country_pie_buckets (value_counts
                     (map (\<lambda>r. r type_col)
                        (filter (\<lambda>r. r country_col = CStr ''Peru'') (rows twelve_table))))))
                  (snd (country_pie_buckets (value_counts
                     (map (\<lambda>r. r type_col)
                        (filter (\<lambda>r. r country_col = CStr ''Peru'') (rows twelve_table)))))))],
               twelve_table)"
    by blast
  then have p2: "pie_chart_disaster_type_by_country 0 twelve_table =
     (None,
      [Header ''Disaster Types by Country'',
       Pyplot (PieChart
         [CStr ''Flood'', CInt 1, CInt 2, CInt 3, CInt 4, CInt 5, CInt 6, CInt 7, CInt 8, CInt 9,
          CStr ''Others'']
         [3, 1, 1, 1, 1, 1, 1, 1, 1, 1, 2])],
      twelve_table)"
    by (simp only: twelve_table_peru c b fst_conv snd_conv)
  from main have "pie_chart_disaster_type twelve_table =
           (None,
            [Header ''Disaster Type Distribution'',
             Pyplot (PieChart (fst (pie_buckets (value_counts twelve_types)))
                       (snd (pie_buckets (value_counts twelve_types))))],
            twelve_table)"
    by blast
  then have p1: "pie_chart_disaster_type twelve_table =
     (None,
      [Header ''Disaster Type Distribution'',
       Pyplot (PieChart
         [CStr ''Flood'', CInt 1, CInt 2, CInt 3, CInt 4, CInt 5, CInt 6, CInt 7, CInt 8, CInt 9,
          CStr ''Others'']
         [3, 1, 1, 1, 1, 1, 1, 1, 1, 1, 2])],
      twelve_table)"
    by (simp only: b fst_conv snd_conv)
  from twelve_table_types l p1 s p2 show ?thesis by blast
qed

section \<open>Yearly trend\<close>

text \<open>
  C4. A table of exactly three records of type "Flood" with start years 2000, 2000 and
  2001 (whatever their other fields are), with the range chosen from 2000 to 2001: the
  trend renderer plots the counts 2 for 2000 and 1 for 2001.
\<close>

theorem flood_trend_example:
  assumes "year_col \<in> set cols" and "type_col \<in> set cols"
  shows "fst (snd (line_graph_disaster_trend parse 0 1 0
            \<lparr>columns = cols,
             rows = [r1(type_col := CStr ''Flood'', year_col := CInt 2000),
                     r2(type_col := CStr ''Flood'', year_col := CInt 2000),
                     r3(type_col := CStr ''Flood'', year_col := CInt 2001)]\<rparr>)) =
   [Header ''Disaster Trend Line Graph'',
    Pyplot (LineChart [(CInt 2000, 2), (CInt 2001, 1)] ''Trend of Flood from 2000 to 2001'')]"
  using assms
  by (simp add: line_graph_disaster_trend_def coerce_year_def trend_view_def
      trend_frame_def trend_filter_def year_range_mask_def map_column_def dropna_any_def
      select_rows_def sort_values_def
      py_sorted_def sortable_def sort_by_def cell_lt_def selectbox_def or_none_def getcol_def
      groupby_size_def group_keys_def dropna_values_def pd_eq_def string_of_int_def Let_def)

theorem flood_trend_example_witness:
  "year_col \<in> set [type_col, year_col] \<and> type_col \<in> set [type_col, year_col] \<and>
   fst (snd (line_graph_disaster_trend Map.empty 0 1 0
            \<lparr>columns = [type_col, year_col],
             rows = [(\<lambda>c. CNaN)(type_col := CStr ''Flood'', year_col := CInt 2000),
                     (\<lambda>c. CNaN)(type_col := CStr ''Flood'', year_col := CInt 2000),
                     (\<lambda>c. CNaN)(type_col := CStr ''Flood'', year_col := CInt 2001)]\<rparr>)) =
   [Header ''Disaster Trend Line Graph'',
    Pyplot (LineChart [(CInt 2000, 2), (CInt 2001, 1)] ''Trend of Flood from 2000 to 2001'')]"
proof -
  have y: "year_col \<in> set [type_col, year_col]" by simp
  have t: "type_col \<in> set [type_col, year_col]" by simp
  show ?thesis
    using y t flood_trend_example[OF y t, of Map.empty "\<lambda>c. CNaN" "\<lambda>c. CNaN" "\<lambda>c. CNaN"]
    by simp
qed

lemma year_range_mask_within:
  "year_range_mask (CInt s) (CInt e) r = year_within s e (r year_col)"
  by (cases "r year_col") (simp_all add: year_range_mask_def year_within_def)

lemma coerce_year_Inr:
  assumes "coerce_year parse df = Inr df1"
  shows "df1 = map_column year_col (to_numeric parse) df"
  using assms by (simp add: coerce_year_def split: if_splits)

lemma rows_trend_frame:
  "rows (trend_frame (map_column year_col (to_numeric parse) df)) =
     sort_key (\<lambda>r. num (r year_col))
       (filter (\<lambda>r. \<not> isna (r year_col))
          (map (\<lambda>r. r(year_col := to_numeric parse (r year_col))) (rows df)))"
  by (simp add: trend_frame_def sort_values_def dropna_any_def select_rows_def map_column_def)

lemma year_within_not_na: "year_within s e c \<Longrightarrow> \<not> isna c"
  by (cases c) (simp_all add: year_within_def)

lemma trend_filter_rows:
  "rows (trend_filter (CInt s) (CInt e) t df) =
     filter (\<lambda>r. year_within s e (r year_col) \<and> \<not> isna t \<and> r type_col = t) (rows df)"
  by (simp add: trend_filter_def select_rows_def year_range_mask_within pd_eq_def)

lemma trend_renderer_result:
  assumes "year_col \<in> set (columns df)"
    and "coerce_year parse df = Inr df1"
    and "py_sorted (unique (map (\<lambda>r. r year_col) (rows (trend_frame df1)))) = Inr unique_years"
    and "selectbox unique_years 0 pick_start = Some start_year"
    and "selectbox unique_years (length unique_years - 1) pick_end = Some end_year"
    and "getcol (trend_frame df1) type_col = Some types"
    and "py_sorted (unique types) = Inr type_options"
    and "selectbox type_options 0 pick_type = Some disaster_type"
  shows "line_graph_disaster_trend parse pick_start pick_end pick_type df =
           (None,
            [Header ''Disaster Trend Line Graph'',
             trend_view start_year end_year disaster_type
               (trend_filter start_year end_year disaster_type (trend_frame df1))],
            df1)"
proof -
  from assms(4) have "unique_years \<noteq> []"
    by (auto simp: selectbox_def)
  then have "0 < length unique_years" by simp
  with assms show ?thesis
    by (simp add: line_graph_disaster_trend_def Let_def or_none_def)
qed

text \<open>
  C3, as the code has it. When the trend renderer has made its selections (a start year
  \<open>s\<close> and an end year \<open>e\<close> from the years of the table, a disaster type \<open>t\<close> from
  its types), it shows the yearly counts of the filtered frame, and the filtered frame
  holds exactly the rows of disaster type \<open>t\<close> whose start year \<open>y\<close> satisfies
  \<open>s \<le> y \<le> e\<close>, both ends included. In terms of the table the renderer was given,
  these are the rows of type \<open>t\<close> whose start year reads as a number within the range
  (with the start year replaced by that number), in ascending order of the year.
\<close>

theorem trend_shows_selected_type_within_year_range:
  assumes "year_col \<in> set (columns df)"
    and "coerce_year parse df = Inr df1"
    and "py_sorted (unique (map (\<lambda>r. r year_col) (rows (trend_frame df1)))) = Inr unique_years"
    and "selectbox unique_years 0 pick_start = Some (CInt s)"
    and "selectbox unique_years (length unique_years - 1) pick_end = Some (CInt e)"
    and "getcol (trend_frame df1) type_col = Some types"
    and "py_sorted (unique types) = Inr type_options"
    and "selectbox type_options 0 pick_type = Some t"
  shows "line_graph_disaster_trend parse pick_start pick_end pick_type df =
           (None,
            [Header ''Disaster Trend Line Graph'',
             let df_trend = groupby_size year_col (trend_filter (CInt s) (CInt e) t (trend_frame df1))
             in if df_trend = [] then Write ''No Records found.''
                else Pyplot (LineChart df_trend
                       (''Trend of '' @ py_str t @ '' from '' @ string_of_int s @ '' to '' @
                        string_of_int e))],
            df1) \<and>
         rows (trend_filter (CInt s) (CInt e) t (trend_frame df1)) =
           filter (\<lambda>r. year_within s e (r year_col) \<and> \<not> isna t \<and> r type_col = t)
             (rows (trend_frame df1)) \<and>
         mset (rows (trend_filter (CInt s) (CInt e) t (trend_frame df1))) =
           mset (map (\<lambda>r. r(year_col := to_numeric parse (r year_col)))
                  (filter (\<lambda>r. year_within s e (to_numeric parse (r year_col)) \<and>
                                \<not> isna t \<and> r type_col = t)
                     (rows df))) \<and>
         sorted (map (\<lambda>r. num (r year_col))
           (rows (trend_filter (CInt s) (CInt e) t (trend_frame df1))))"
proof -
  have v: "(let df_trend = groupby_size year_col D
            in if df_trend = [] then Write ''No Records found.''
               else Pyplot (LineChart df_trend
                      (''Trend of '' @ py_str t @ '' from '' @ string_of_int s @ '' to '' @
                       string_of_int e))) =
           trend_view (CInt s) (CInt e) t D" for D
    by (simp add: trend_view_def Let_def)
  have a: "line_graph_disaster_trend parse pick_start pick_end pick_type df =
           (None,
            [Header ''Disaster Trend Line Graph'',
             let df_trend = groupby_size year_col (trend_filter (CInt s) (CInt e) t (trend_frame df1))
             in if df_trend = [] then Write ''No Records found.''
                else Pyplot (LineChart df_trend
                       (''Trend of '' @ py_str t @ '' from '' @ string_of_int s @ '' to '' @
                        string_of_int e))],
            df1)"
    unfolding v by (rule trend_renderer_result[OF assms])
  have b: "rows (trend_filter (CInt s) (CInt e) t (trend_frame df1)) =
           filter (\<lambda>r. year_within s e (r year_col) \<and> \<not> isna t \<and> r type_col = t)
             (rows (trend_frame df1))"
    by (rule trend_filter_rows)
  let ?co = "\<lambda>r::row. r(year_col := to_numeric parse (r year_col))"
  let ?W = "\<lambda>r::row. year_within s e (r year_col) \<and> \<not> isna t \<and> r type_col = t"
  let ?Q = "\<lambda>r::row. \<not> isna (r year_col)"
  let ?M = "map ?co (rows df)"
  from assms(2) have df1: "df1 = map_column year_col (to_numeric parse) df"
    by (rule coerce_year_Inr)
  have r: "rows (trend_frame df1) = sort_key (\<lambda>r. num (r year_col)) (filter ?Q ?M)"
    unfolding df1 by (rule rows_trend_frame)
  have c: "mset (rows (trend_filter (CInt s) (CInt e) t (trend_frame df1))) =
           mset (map ?co
                  (filter (\<lambda>r. year_within s e (to_numeric parse (r year_col)) \<and>
                                \<not> isna t \<and> r type_col = t)
                     (rows df)))"
  proof -
    have "mset (rows (trend_filter (CInt s) (CInt e) t (trend_frame df1))) =
          mset (filter ?W (filter ?Q ?M))"
      by (simp only: b r mset_filter mset_sort)
    also have "filter ?W (filter ?Q ?M) = filter ?W ?M"
      unfolding filter_filter by (rule filter_cong) (auto dest: year_within_not_na)
    also have "\<dots> = map ?co (filter (\<lambda>r. ?W (?co r)) (rows df))"
      by (simp only: filter_map comp_def)
    also have "\<dots> = map ?co
                  (filter (\<lambda>r. year_within s e (to_numeric parse (r year_col)) \<and>
                                \<not> isna t \<and> r type_col = t)
                     (rows df))"
      by simp
    finally show ?thesis .
  qed
  have d: "sorted (map (\<lambda>r. num (r year_col))
           (rows (trend_filter (CInt s) (CInt e) t (trend_frame df1))))"
    unfolding b r by (simp add: sorted_filter)
  from a b c d show ?thesis by blast
qed

lemma two_type_coerced:
  "coerce_year read_year two_type_table =
     Inr (map_column year_col (to_numeric read_year) two_type_table)"
  by (simp add: coerce_year_def two_type_table_def read_year_def)

lemma two_type_frame:
  "trend_frame (map_column year_col (to_numeric read_year) two_type_table) =
     \<lparr>columns = [type_col, year_col],
      rows = [(\<lambda>c. CNaN)(type_col := CStr ''Flood'', year_col := CInt 1999),
              (\<lambda>c. CNaN)(type_col := CStr ''Flood'', year_col := CInt 2000),
              (\<lambda>c. CNaN)(type_col := CStr ''Storm'', year_col := CInt 2000),
              (\<lambda>c. CNaN)(type_col := CStr ''Flood'', year_col := CInt 2001)]\<rparr>"
  by (simp add: trend_frame_def sort_values_def dropna_any_def select_rows_def map_column_def
      two_type_table_def read_year_def)

lemma two_type_years:
  "py_sorted (unique (map (\<lambda>r. r year_col)
      (rows (trend_frame (map_column year_col (to_numeric read_year) two_type_table))))) =
     Inr [CInt 1999, CInt 2000, CInt 2001]"
  by (simp add: two_type_frame py_sorted_def sortable_def sort_by_def cell_lt_def)

lemma two_type_types:
  "getcol (trend_frame (map_column year_col (to_numeric read_year) two_type_table)) type_col =
     Some [CStr ''Flood'', CStr ''Flood'', CStr ''Storm'', CStr ''Flood'']"
  by (simp add: two_type_frame getcol_def)

lemma two_type_type_options:
  "py_sorted (unique [CStr ''Flood'', CStr ''Flood'', CStr ''Storm'', CStr ''Flood'']) =
     Inr [CStr ''Flood'', CStr ''Storm'']"
  by (simp add: py_sorted_def sortable_def sort_by_def cell_lt_def)

lemma two_type_picks:
  "selectbox [CInt 1999, CInt 2000, CInt 2001] 0 1 = Some (CInt 2000)"
  "selectbox [CInt 1999, CInt 2000, CInt 2001]
     (length [CInt 1999, CInt 2000, CInt 2001] - 1) 2 = Some (CInt 2001)"
  "selectbox [CStr ''Flood'', CStr ''Storm''] 0 0 = Some (CStr ''Flood'')"
  by (simp_all add: selectbox_def)

lemma two_type_year_col: "year_col \<in> set (columns two_type_table)"
  by (simp add: two_type_table_def)

lemma two_type_filtered:
  "map (\<lambda>r. (r type_col, r year_col))
     (rows (trend_filter (CInt 2000) (CInt 2001) (CStr ''Flood'')
        (trend_frame (map_column year_col (to_numeric read_year) two_type_table)))) =
   [(CStr ''Flood'', CInt 2000), (CStr ''Flood'', CInt 2001)]"
  by (simp add: two_type_frame trend_filter_rows year_within_def)

lemma two_type_counts:
  "groupby_size year_col
     (trend_filter (CInt 2000) (CInt 2001) (CStr ''Flood'')
        (trend_frame (map_column year_col (to_numeric read_year) two_type_table))) =
   [(CInt 2000, 1), (CInt 2001, 1)]"
  by (simp add: two_type_frame groupby_size_def trend_filter_rows year_within_def
      group_keys_def dropna_values_def sort_by_def Let_def)

theorem trend_shows_selected_type_within_year_range_witness:
  "year_col \<in> set (columns two_type_table) \<and>
   coerce_year read_year two_type_table =
     Inr (map_column year_col (to_numeric read_year) two_type_table) \<and>
   py_sorted (unique (map (\<lambda>r. r year_col)
      (rows (trend_frame (map_column year_col (to_numeric read_year) two_type_table))))) =
     Inr [CInt 1999, CInt 2000, CInt 2001] \<and>
   selectbox [CInt 1999, CInt 2000, CInt 2001] 0 1 = Some (CInt 2000) \<and>
   selectbox [CInt 1999, CInt 2000, CInt 2001]
     (length [CInt 1999, CInt 2000, CInt 2001] - 1) 2 = Some (CInt 2001) \<and>
   getcol (trend_frame (map_column year_col (to_numeric read_year) two_type_table)) type_col =
     Some [CStr ''Flood'', CStr ''Flood'', CStr ''Storm'', CStr ''Flood''] \<and>
   py_sorted (unique [CStr ''Flood'', CStr ''Flood'', CStr ''Storm'', CStr ''Flood'']) =
     Inr [CStr ''Flood'', CStr ''Storm''] \<and>
   selectbox [CStr ''Flood'', CStr ''Storm''] 0 0 = Some (CStr ''Flood'') \<and>
   line_graph_disaster_trend read_year 1 2 0 two_type_table =
     (None,
      [Header ''Disaster Trend Line Graph'',
       Pyplot (LineChart [(CInt 2000, 1), (CInt 2001, 1)] ''Trend of Flood from 2000 to 2001'')],
      map_column year_col (to_numeric read_year) two_type_table) \<and>
   map (\<lambda>r. (r type_col, r year_col))
     (rows (trend_filter (CInt 2000) (CInt 2001) (CStr ''Flood'')
        (trend_frame (map_column year_col (to_numeric read_year) two_type_table)))) =
   [(CStr ''Flood'', CInt 2000), (CStr ''Flood'', CInt 2001)]"
proof -
  note main = trend_shows_selected_type_within_year_range[OF two_type_year_col two_type_coerced
      two_type_years two_type_picks(1) two_type_picks(2) two_type_types two_type_type_options
      two_type_picks(3)]
  from main have "line_graph_disaster_trend read_year 1 2 0 two_type_table =
     (None,
      [Header ''Disaster Trend Line Graph'',
       let df_trend = groupby_size year_col
             (trend_filter (CInt 2000) (CInt 2001) (CStr ''Flood'')
                (trend_frame (map_column year_col (to_numeric read_year) two_type_table)))
       in if df_trend = [] then Write ''No Records found.''
          else Pyplot (LineChart df_trend
                 (''Trend of '' @ py_str (CStr ''Flood'') @ '' from '' @ string_of_int 2000 @
                  '' to '' @ string_of_int 2001))],
      map_column year_col (to_numeric read_year) two_type_table)"
    by blast
  then have "line_graph_disaster_trend read_year 1 2 0 two_type_table =
     (None,
      [Header ''Disaster Trend Line Graph'',
       Pyplot (LineChart [(CInt 2000, 1), (CInt 2001, 1)] ''Trend of Flood from 2000 to 2001'')],
      map_column year_col (to_numeric read_year) two_type_table)"
    by (simp add: two_type_counts string_of_int_def)
  with two_type_year_col two_type_coerced two_type_years two_type_picks two_type_types
    two_type_type_options two_type_filtered
  show ?thesis by blast
qed

lemma two_type_trend:
  "line_graph_disaster_trend read_year 1 2 0 two_type_table =
     (None,
      [Header ''Disaster Trend Line Graph'',
       Pyplot (LineChart [(CInt 2000, 1), (CInt 2001, 1)] ''Trend of Flood from 2000 to 2001'')],
      map_column year_col (to_numeric read_year) two_type_table)"
  using trend_renderer_result[OF two_type_year_col two_type_coerced
      two_type_years two_type_picks(1) two_type_picks(2) two_type_types two_type_type_options
      two_type_picks(3)]
  by (simp add: trend_view_def two_type_counts string_of_int_def)

lemma two_type_in_range:
  "map (\<lambda>r. (r type_col, r year_col))
     (filter (\<lambda>r. year_within 2000 2001 (r year_col))
        (rows (trend_frame (map_column year_col (to_numeric read_year) two_type_table)))) =
   [(CStr ''Flood'', CInt 2000), (CStr ''Storm'', CInt 2000), (CStr ''Flood'', CInt 2001)]"
  by (simp add: two_type_frame year_within_def)

text \<open>
  C3, as stated, fails. With the years 2000 to 2001 and the type "Flood" selected, the
  storm of the year 2000 lies within the range and is not among the filtered rows: the
  renderer counts one disaster for 2000, where the rows within the range hold two.
\<close>

theorem trend_filter_drops_other_types_in_range:
  "line_graph_disaster_trend read_year 1 2 0 two_type_table =
     (None,
      [Header ''Disaster Trend Line Graph'',
       Pyplot (LineChart [(CInt 2000, 1), (CInt 2001, 1)] ''Trend of Flood from 2000 to 2001'')],
      map_column year_col (to_numeric read_year) two_type_table) \<and>
   map (\<lambda>r. (r type_col, r year_col))
     (filter (\<lambda>r. year_within 2000 2001 (r year_col))
        (rows (trend_frame (map_column year_col (to_numeric read_year) two_type_table)))) =
   [(CStr ''Flood'', CInt 2000), (CStr ''Storm'', CInt 2000), (CStr ''Flood'', CInt 2001)] \<and>
   map (\<lambda>r. (r type_col, r year_col))
     (rows (trend_filter (CInt 2000) (CInt 2001) (CStr ''Flood'')
        (trend_frame (map_column year_col (to_numeric read_year) two_type_table)))) =
   [(CStr ''Flood'', CInt 2000), (CStr ''Flood'', CInt 2001)] \<and>
   rows (trend_filter (CInt 2000) (CInt 2001) (CStr ''Flood'')
        (trend_frame (map_column year_col (to_numeric read_year) two_type_table))) \<noteq>
   filter (\<lambda>r. year_within 2000 2001 (r year_col))
        (rows (trend_frame (map_column year_col (to_numeric read_year) two_type_table)))"
proof -
  have "rows (trend_filter (CInt 2000) (CInt 2001) (CStr ''Flood'')
        (trend_frame (map_column year_col (to_numeric read_year) two_type_table))) \<noteq>
   filter (\<lambda>r. year_within 2000 2001 (r year_col))
        (rows (trend_frame (map_column year_col (to_numeric read_year) two_type_table)))"
  proof
    assume "rows (trend_filter (CInt 2000) (CInt 2001) (CStr ''Flood'')
        (trend_frame (map_column year_col (to_numeric read_year) two_type_table))) =
      filter (\<lambda>r. year_within 2000 2001 (r year_col))
        (rows (trend_frame (map_column year_col (to_numeric read_year) two_type_table)))"
    then have "length (map (\<lambda>r. (r type_col, r year_col))
        (rows (trend_filter (CInt 2000) (CInt 2001) (CStr ''Flood'')
          (trend_frame (map_column year_col (to_numeric read_year) two_type_table))))) =
      length (map (\<lambda>r. (r type_col, r year_col))
        (filter (\<lambda>r. year_within 2000 2001 (r year_col))
          (rows (trend_frame (map_column year_col (to_numeric read_year) two_type_table)))))"
      by simp
    then show False
      unfolding two_type_filtered two_type_in_range by simp
  qed
  with two_type_trend two_type_in_range two_type_filtered show ?thesis by blast
qed

section \<open>Comparison of two disaster types\<close>

lemma disaster_types_not_na:
  assumes "disaster_types_of col = Inr ts" and "d \<in> set ts"
  shows "\<not> isna d"
  using assms py_sorted_set[of "unique (dropna_values col)" ts]
  by (auto simp: disaster_types_of_def unique_set dropna_values_def)

lemma b_options_exclude:
  assumes "disaster_types_of col = Inr ts"
  shows "a \<notin> set (disaster_b_options ts a)"
proof
  assume "a \<in> set (disaster_b_options ts a)"
  then have m: "a \<in> set ts" and ne: "py_ne a a"
    by (auto simp: disaster_b_options_def)
  from ne have "a = CNaN" by (simp add: py_ne_def split: if_splits)
  moreover from assms m have "\<not> isna a" by (rule disaster_types_not_na)
  ultimately show False by simp
qed

lemma comparison_table_distinct:
  assumes "ShowTable (a, va) ti (b, vb) \<in>
             set (fst (snd (disaster_impact_comparison_table parse agg_mean pa pb df)))"
  shows "a \<noteq> b"
proof (cases "getcol df type_col")
  case None
  with assms show ?thesis by (simp add: disaster_impact_comparison_table_def)
next
  case (Some col)
  show ?thesis
  proof (cases "disaster_types_of col")
    case (Inl e)
    with assms Some show ?thesis by (simp add: disaster_impact_comparison_table_def)
  next
    case (Inr ts)
    let ?a = "or_none (selectbox ts 0 pa)"
    let ?opts = "disaster_b_options ts ?a"
    from assms Some Inr have ne: "?opts \<noteq> []" and a: "a = ?a"
      and b: "b = or_none (selectbox ?opts 0 pb)"
      by (auto simp: disaster_impact_comparison_table_def Let_def split: if_splits)
    from ne have "or_none (selectbox ?opts 0 pb) \<in> set ?opts"
      by (rule or_none_selectbox_member)
    with b_options_exclude[OF Inr, of ?a] a b show ?thesis by auto
  qed
qed

text \<open>
  C5. Whatever is chosen as "Disaster A", the options offered for "Disaster B" (line 157,
  computed from the sorted non-missing disaster types of line 133) do not contain it, no
  pick from them returns it, and whenever the renderer shows a comparison table its two
  categories differ.
\<close>

theorem disaster_b_never_offers_a:
  assumes "disaster_types_of col = Inr disaster_types"
  shows "disaster_a \<notin> set (disaster_b_options disaster_types disaster_a) \<and>
         (\<forall>pick. selectbox (disaster_b_options disaster_types disaster_a) 0 pick \<noteq>
                   Some disaster_a) \<and>
         (\<forall>parse agg_mean pa pb df a va ti b vb.
            ShowTable (a, va) ti (b, vb) \<in>
              set (fst (snd (disaster_impact_comparison_table parse agg_mean pa pb df))) \<longrightarrow> a \<noteq> b)"
proof -
  have "disaster_a \<notin> set (disaster_b_options disaster_types disaster_a)"
    using assms by (rule b_options_exclude)
  moreover from this
  have "\<forall>pick. selectbox (disaster_b_options disaster_types disaster_a) 0 pick \<noteq> Some disaster_a"
    using selectbox_member by fastforce
  ultimately show ?thesis
    using comparison_table_distinct by blast
qed

lemma some_types_sorted:
  "disaster_types_of some_types = Inr [CStr ''Drought'', CStr ''Flood'', CStr ''Storm'']"
  by (simp add: disaster_types_of_def some_types_def dropna_values_def py_sorted_def sortable_def
      sort_by_def cell_lt_def)

theorem disaster_b_never_offers_a_witness:
  "disaster_types_of some_types = Inr [CStr ''Drought'', CStr ''Flood'', CStr ''Storm''] \<and>
   disaster_b_options [CStr ''Drought'', CStr ''Flood'', CStr ''Storm''] (CStr ''Flood'') =
     [CStr ''Drought'', CStr ''Storm''] \<and>
   CStr ''Flood'' \<notin> set (disaster_b_options [CStr ''Drought'', CStr ''Flood'', CStr ''Storm''] (CStr ''Flood'')) \<and>
   selectbox (disaster_b_options [CStr ''Drought'', CStr ''Flood'', CStr ''Storm''] (CStr ''Flood'')) 0 1 = Some (CStr ''Storm'')"
  using disaster_b_never_offers_a[OF some_types_sorted, of "CStr ''Flood''"] some_types_sorted
  by (simp add: disaster_b_options_def py_ne_def selectbox_def)

text \<open>
  C8. When the disaster type column has fewer than two distinct values that are not
  missing, the comparison renderer shows the warning of line 136 and returns: nothing
  else is shown, no error is raised, and the dataframe is as it was.
\<close>

theorem comparison_guard_fewer_than_two:
  assumes "getcol df type_col = Some col" and "card (set (dropna_values col)) < 2"
  shows "disaster_impact_comparison_table parse agg_mean pick_a pick_b df =
           (None,
            [Header ''Disaster Average Impact Comparison'',
             Warning ''Not enough disaster types available for comparison.''],
            df)"
proof -
  let ?u = "unique (dropna_values col)"
  from assms(2) have short: "length ?u < 2"
    by (simp add: length_unique_card)
  then have "disaster_types_of col = Inr (sort_by cell_lt ?u)"
    by (simp add: disaster_types_of_def py_sorted_short)
  moreover from short have "length (sort_by cell_lt ?u) < 2"
    by (simp add: length_sort_by)
  ultimately show ?thesis
    using assms(1) by (simp add: disaster_impact_comparison_table_def)
qed

theorem comparison_guard_witness:
  "getcol one_type_table type_col = Some [CStr ''Flood'', CNone, CStr ''Flood''] \<and>
   card (set (dropna_values [CStr ''Flood'', CNone, CStr ''Flood''])) < 2 \<and>
   disaster_impact_comparison_table Map.empty exact_mean 0 0 one_type_table =
     (None,
      [Header ''Disaster Average Impact Comparison'',
       Warning ''Not enough disaster types available for comparison.''],
      one_type_table)"
proof -
  have g: "getcol one_type_table type_col = Some [CStr ''Flood'', CNone, CStr ''Flood'']"
    by (simp add: getcol_def one_type_table_def)
  have c: "card (set (dropna_values [CStr ''Flood'', CNone, CStr ''Flood''])) < 2"
    by (simp add: dropna_values_def)
  from g c comparison_guard_fewer_than_two[OF g c, of Map.empty exact_mean 0 0] show ?thesis by simp
qed


section \<open>Country page\<close>

lemma country_options_strings:
  assumes "country_options col = Inr country_list" and "c \<in> set country_list"
  shows "is_str c"
proof -
  from assms(1) obtain named sorted_names where k: "keep_stripped (unique (dropna_values col)) = Inr named"
    and s: "py_sorted named = Inr sorted_names" and l: "country_list = CStr ''All Countries'' # sorted_names"
    by (auto simp: country_options_def split: sum.splits)
  from s have "set sorted_names = set named" by (rule py_sorted_set)
  with k l assms(2) show ?thesis
    by (auto dest: keep_stripped_strings)
qed

text \<open>
  C9. On the country page, with a country column whose options can be computed: when
  the selection is "All Countries" the page shows the table it was given, otherwise it
  shows exactly the rows whose country equals the selection. The page leaves the
  dataframe as it was.
\<close>

theorem country_filter_identity_or_exact:
  assumes "getcol df country_col = Some col"
    and "country_options col = Inr country_list"
    and "selectbox country_list 0 pick = Some selected_country"
  shows "country_wise_data_page pick df =
           (None,
            [ShowDataframe
               (if selected_country = CStr ''All Countries'' then df
                else df\<lparr>rows := filter (\<lambda>r. r country_col = selected_country) (rows df)\<rparr>)],
            df)"
proof -
  from assms(3) have "selected_country \<in> set country_list"
    by (rule selectbox_member)
  with assms(2) have "is_str selected_country"
    by (rule country_options_strings)
  then obtain name where n: "selected_country = CStr name"
    by (cases selected_country) simp_all
  show ?thesis
    using assms
    by (simp add: country_wise_data_page_def or_none_def n py_ne_def pd_eq_def select_rows_def)
qed

lemma country_table_col:
  "getcol country_table country_col =
     Some [CStr ''Peru'', CStr ''Japan'', CNaN, CStr '' '', CStr ''Peru'']"
  by (simp add: getcol_def country_table_def)

lemma country_table_options:
  "country_options [CStr ''Peru'', CStr ''Japan'', CNaN, CStr '' '', CStr ''Peru''] =
     Inr [CStr ''All Countries'', CStr ''Japan'', CStr ''Peru'']"
  by (simp add: country_options_def dropna_values_def space1_def space2_def space3_def py_sorted_def
      sortable_def sort_by_def cell_lt_def)

theorem country_filter_witness:
  "getcol country_table country_col =
     Some [CStr ''Peru'', CStr ''Japan'', CNaN, CStr '' '', CStr ''Peru''] \<and>
   country_options [CStr ''Peru'', CStr ''Japan'', CNaN, CStr '' '', CStr ''Peru''] =
     Inr [CStr ''All Countries'', CStr ''Japan'', CStr ''Peru''] \<and>
   selectbox [CStr ''All Countries'', CStr ''Japan'', CStr ''Peru''] 0 2 = Some (CStr ''Peru'') \<and>
   country_wise_data_page 2 country_table =
     (None,
      [ShowDataframe
         \<lparr>columns = [type_col, country_col],
          rows = [(\<lambda>c. CNaN)(type_col := CStr ''Flood'', country_col := CStr ''Peru''),
                  (\<lambda>c. CNaN)(type_col := CStr ''Quake'', country_col := CStr ''Peru'')]\<rparr>],
      country_table) \<and>
   selectbox [CStr ''All Countries'', CStr ''Japan'', CStr ''Peru''] 0 0 =
     Some (CStr ''All Countries'') \<and>
   country_wise_data_page 0 country_table = (None, [ShowDataframe country_table], country_table)"
proof -
  have s2: "selectbox [CStr ''All Countries'', CStr ''Japan'', CStr ''Peru''] 0 2 = Some (CStr ''Peru'')"
    by (simp add: selectbox_def)
  have s0: "selectbox [CStr ''All Countries'', CStr ''Japan'', CStr ''Peru''] 0 0 =
     Some (CStr ''All Countries'')"
    by (simp add: selectbox_def)
  have p2: "country_wise_data_page 2 country_table =
     (None,
      [ShowDataframe
         \<lparr>columns = [type_col, country_col],
          rows = [(\<lambda>c. CNaN)(type_col := CStr ''Flood'', country_col := CStr ''Peru''),
                  (\<lambda>c. CNaN)(type_col := CStr ''Quake'', country_col := CStr ''Peru'')]\<rparr>],
      country_table)"
    using country_filter_identity_or_exact[OF country_table_col country_table_options s2]
    by (simp add: country_table_def)
  have p0: "country_wise_data_page 0 country_table =
      (None, [ShowDataframe country_table], country_table)"
    using country_filter_identity_or_exact[OF country_table_col country_table_options s0]
    by simp
  from country_table_col country_table_options s2 s0 p2 p0 show ?thesis by blast
qed


section \<open>Impact bar chart\<close>

lemma bar_groups_sorted: "sorted (map snd (bar_groups parse agg_sum m df))"
  by (simp add: bar_groups_def Let_def)

lemma bar_chart_shows_bar_groups:
  assumes "Pyplot (BarhChart bars title) \<in>
             set (fst (snd (bar_chart_disaster_vs_impact parse agg_sum pick df)))"
  shows "\<exists>m. bars = bar_groups parse agg_sum m df"
  using assms
  by (auto simp: bar_chart_disaster_vs_impact_def Let_def split: option.splits if_splits)

text \<open>
  C10. The bars of the impact chart are the per-type sums of the selected metric,
  reordered so that the sums ascend: the smallest total comes first. This holds for the
  groups computed for any metric column and for every bar chart the renderer shows.
\<close>

theorem bar_chart_ascending:
  "sorted (map snd (bar_groups parse agg_sum m df)) \<and>
   mset (bar_groups parse agg_sum m df) =
     mset (groupby_sum (agg_sum (map (\<lambda>r. r m) (rows (map_column m (to_numeric parse) df))))
             type_col m (dropna_any [m] (map_column m (to_numeric parse) df))) \<and>
   (\<forall>pick bars title.
      Pyplot (BarhChart bars title) \<in> set (fst (snd (bar_chart_disaster_vs_impact parse agg_sum pick df)))
      \<longrightarrow> sorted (map snd bars))"
proof -
  have "mset (bar_groups parse agg_sum m df) =
     mset (groupby_sum (agg_sum (map (\<lambda>r. r m) (rows (map_column m (to_numeric parse) df))))
             type_col m (dropna_any [m] (map_column m (to_numeric parse) df)))"
    by (simp add: bar_groups_def Let_def)
  then show ?thesis
    using bar_groups_sorted bar_chart_shows_bar_groups by blast
qed

lemma deaths_bar_groups:
  "bar_groups read_number exact_sum ''impact_info.total_deaths'' deaths_table =
     [(CStr ''Storm'', 4), (CStr ''Flood'', 15)]"
  by (simp add: bar_groups_def deaths_table_def read_number_def map_column_def dropna_any_def
      select_rows_def groupby_sum_def group_keys_def dropna_values_def sort_by_def exact_sum_def
      Let_def)

lemma deaths_bar_chart:
  "fst (snd (bar_chart_disaster_vs_impact read_number exact_sum 0 deaths_table)) =
     [Header ''Impact of Different Disaster'',
      Pyplot (BarhChart (bar_groups read_number exact_sum ''impact_info.total_deaths'' deaths_table)
                ''Total Total Deaths by Disaster Type'')]"
  by (simp add: bar_chart_disaster_vs_impact_def impact_metrics_def selectbox_def Let_def
      deaths_table_def map_column_def metrics_def)

theorem bar_chart_ascending_witness:
  "fst (snd (bar_chart_disaster_vs_impact read_number exact_sum 0 deaths_table)) =
     [Header ''Impact of Different Disaster'',
      Pyplot (BarhChart [(CStr ''Storm'', 4), (CStr ''Flood'', 15)]
                ''Total Total Deaths by Disaster Type'')] \<and>
   sorted (map snd [(CStr ''Storm'', 4 :: int), (CStr ''Flood'', 15)])"
  using bar_chart_ascending[of read_number exact_sum "''impact_info.total_deaths''" deaths_table]
    deaths_bar_chart
  by (simp add: deaths_bar_groups)

section \<open>Values that are not numbers\<close>









lemma bar_chart_completes:
  assumes "selectbox (map fst impact_metrics) 0 pick = Some label"
    and "map_of impact_metrics label = Some m"
    and "m \<in> set (columns df)" and "type_col \<in> set (columns df)"
  shows "bar_chart_disaster_vs_impact parse agg_sum pick df =
           (None,
            [Header ''Impact of Different Disaster'',
             Pyplot (BarhChart (bar_groups parse agg_sum m df)
                       (''Total '' @ label @ '' by Disaster Type''))],
            map_column m (to_numeric parse) df)"
  using assms by (simp add: bar_chart_disaster_vs_impact_def Let_def map_column_def)














section \<open>What the renderers write to the dataframe\<close>













lemma full_table_columns:
  "columns full_table = [type_col, year_col, country_col, iso_col] @ metrics"
  by (simp add: full_table_def)













section \<open>Empty selections\<close>

text \<open>
  The trend renderer (lines 117-118) and the pie chart of one country (lines 251-253)
  test for an empty selection and show a message.
\<close>

lemma trend_empty_range_warns:
  "line_graph_disaster_trend read_year 1 0 0 text_year_table =
     (None,
      [Header ''Disaster Trend Line Graph'', Write ''No Records found.''],
      map_column year_col (to_numeric read_year) text_year_table)"
  by (simp add: line_graph_disaster_trend_def text_year_table_def read_year_def coerce_year_def
      trend_frame_def trend_filter_def trend_view_def year_range_mask_def map_column_def
      dropna_any_def select_rows_def sort_values_def py_sorted_def sortable_def sort_by_def
      cell_lt_def selectbox_def or_none_def getcol_def groupby_size_def group_keys_def
      dropna_values_def pd_eq_def Let_def)

lemma country_pie_empty_warns:
  "pie_chart_disaster_type_by_country 0 blank_country_table =
     (None,
      [Header ''Disaster Types by Country'', Warning ''No disaster data available for None.''],
      blank_country_table)"
  by (simp add: pie_chart_disaster_type_by_country_def blank_country_table_def getcol_def
      dropna_values_def py_sorted_def sortable_def sort_by_def space1_def space2_def space3_def
      selectbox_def or_none_def select_rows_def pd_eq_def Let_def)

lemma unreadable_bar_groups:
  "rows (dropna_any [''impact_info.total_deaths'']
           (map_column ''impact_info.total_deaths'' (to_numeric read_number) unreadable_table)) = [] \<and>
   bar_groups read_number agg_sum ''impact_info.total_deaths'' unreadable_table = []"
  by (simp add: bar_groups_def unreadable_table_def read_number_def map_column_def dropna_any_def
      select_rows_def groupby_sum_def group_keys_def dropna_values_def sort_by_def Let_def)

lemma unreadable_total_deaths:
  "selectbox (map fst impact_metrics) 0 0 = Some ''Total Deaths''"
  "map_of impact_metrics ''Total Deaths'' = Some ''impact_info.total_deaths''"
  "''impact_info.total_deaths'' \<in> set (columns unreadable_table)"
  "type_col \<in> set (columns unreadable_table)"
  by (simp_all add: selectbox_def impact_metrics_def unreadable_table_def metrics_def)

text \<open>
  C7. The bar chart renderer has no such test. On a table in which no record has a
  readable value of the selected metric, \<^verbatim>\<open>df_filtered\<close> (line 225) is empty, and
  the renderer completes with an empty chart and without any warning, however sums are
  computed.
\<close>

theorem bar_chart_empty_without_warning:
  "rows (dropna_any [''impact_info.total_deaths'']
           (map_column ''impact_info.total_deaths'' (to_numeric read_number) unreadable_table)) = [] \<and>
   (\<forall>agg_sum. fst (bar_chart_disaster_vs_impact read_number agg_sum 0 unreadable_table) = None) \<and>
   (\<forall>agg_sum. fst (snd (bar_chart_disaster_vs_impact read_number agg_sum 0 unreadable_table)) =
     [Header ''Impact of Different Disaster'',
      Pyplot (BarhChart [] ''Total Total Deaths by Disaster Type'')])"
  by (simp add: bar_chart_completes[OF unreadable_total_deaths] unreadable_bar_groups)

end
